theory Spec2Isabelle
  imports Main "HOL-Library.AList"
begin

section \<open>Python values\<close>

text \<open>
  A Python \<open>str\<close> is a sequence of Unicode code points; \<open>len\<close>, slicing and the
  regular expressions of the script count code points. A string is therefore a list of
  code points, and \<open>str\<close> reads an ASCII literal of the script.
\<close>

type_synonym pystr = "nat list"

definition str :: "string \<Rightarrow> pystr" where
  "str s = map of_char s"

text \<open>
  The values that travel through the records of the script: what \<open>json.loads\<close> can
  return (\<open>None\<close>, booleans, integers, strings, lists, objects) and what the adapters
  build from it. A \<open>dict\<close> keeps its keys in insertion order, so it is an association
  list; assignment to a key is \<open>AList.update\<close> (an existing key keeps its place, a
  new key goes to the end).
\<close>

datatype pyval =
    PNone
  | PBool bool
  | PInt int
  | PStr pystr
  | PList "pyval list"
  | PDict "(pystr \<times> pyval) list"

type_synonym pydict = "(pystr \<times> pyval) list"

text \<open>Python's truth value of an object, as used by \<open>if x\<close>, \<open>not x\<close> and \<open>x or y\<close>.\<close>

fun truthy :: "pyval \<Rightarrow> bool" where
  "truthy PNone = False"
| "truthy (PBool b) = b"
| "truthy (PInt i) = (i \<noteq> 0)"
| "truthy (PStr s) = (s \<noteq> [])"
| "truthy (PList xs) = (xs \<noteq> [])"
| "truthy (PDict d) = (d \<noteq> [])"

text \<open>\<open>d.get(k)\<close>: the value stored under \<open>k\<close>, or \<open>None\<close>.\<close>

definition dict_get :: "pydict \<Rightarrow> pystr \<Rightarrow> pyval" where
  "dict_get d k = (case map_of d k of None \<Rightarrow> PNone | Some v \<Rightarrow> v)"

text \<open>\<open>a or b\<close> on values.\<close>

definition py_or :: "pyval \<Rightarrow> pyval \<Rightarrow> pyval" where
  "py_or a b = (if truthy a then a else b)"

text \<open>An exception of class \<open>Exception\<close>, named by its Python class.\<close>

datatype error = PyExc string

section \<open>Dates of the fallback extractor\<close>

text \<open>
  A \<open>datetime\<close> has microsecond resolution. \<open>wall\<close> is the reading of its own
  clock, in microseconds since 0001-01-01T00:00:00; \<open>tzinfo\<close> is its UTC offset in
  microseconds, \<open>None\<close> for a naive value. The representable readings are those of
  the years 1 to 9999.
\<close>

record pydatetime =
  wall :: int
  tzinfo :: "int option"

definition usec_per_day :: int where
  "usec_per_day = 86400000000"

definition max_wall :: int where
  "max_wall = 3652059 * usec_per_day"

definition in_range :: "int \<Rightarrow> bool" where
  "in_range w = (0 \<le> w \<and> w < max_wall)"

text \<open>
  A UTC offset is a \<open>timedelta\<close> strictly between minus and plus one day; \<open>utcoffset\<close>
  and the construction of a \<open>timezone\<close> raise \<open>ValueError\<close> for any other.
\<close>

definition valid_offset :: "int \<Rightarrow> bool" where
  "valid_offset off = (- usec_per_day < off \<and> off < usec_per_day)"

text \<open>
  The offset \<open>astimezone\<close> works with. An aware date has its own. For a naive date
  the interpreter searches the system's local time zone for the offset that belongs to
  the reading; that search is the system's, \<open>loc\<close>, and it may raise.
\<close>

definition offset_for :: "(int \<Rightarrow> error + int) \<Rightarrow> pydatetime \<Rightarrow> error + int" where
  "offset_for loc d =
     (case (case tzinfo d of None \<Rightarrow> loc (wall d) | Some t \<Rightarrow> Inr t) of
        Inl e \<Rightarrow> Inl e
      | Inr off \<Rightarrow> if valid_offset off then Inr off else Inl (PyExc ''ValueError''))"

text \<open>
  \<open>d.astimezone(timezone.utc)\<close>: the offset is subtracted and the result carries
  offset zero; a result outside the years 1 to 9999 raises \<open>OverflowError\<close>.
\<close>

definition astimezone_utc :: "(int \<Rightarrow> error + int) \<Rightarrow> pydatetime \<Rightarrow> error + pydatetime" where
  "astimezone_utc loc d =
     (case offset_for loc d of
        Inl e \<Rightarrow> Inl e
      | Inr off \<Rightarrow>
          (let w = wall d - off
           in if in_range w then Inr \<lparr>wall = w, tzinfo = Some 0\<rparr>
              else Inl (PyExc ''OverflowError'')))"

text \<open>
  The search on a system whose local time zone has one fixed offset. It reads the local
  time at the reading taken as UTC, and at the instants one day before and one day
  after the one it finds; a local time outside the years 1 to 9999 raises
  \<open>ValueError\<close>.
\<close>

definition fixed_zone :: "int \<Rightarrow> int \<Rightarrow> error + int" where
  "fixed_zone off w =
     (if in_range (w + off) \<and> in_range (w - usec_per_day) \<and> in_range (w + usec_per_day)
      then Inr off
      else Inl (PyExc ''ValueError''))"

text \<open>Decimal digits of a number, padded with zeros on the left to a width.\<close>

definition digit :: "nat \<Rightarrow> nat" where
  "digit n = 48 + n mod 10"

fun zpad :: "nat \<Rightarrow> nat \<Rightarrow> pystr" where
  "zpad 0 n = []"
| "zpad (Suc w) n = zpad w (n div 10) @ [digit n]"

text \<open>
  The proleptic Gregorian date (year, month, day) of a day number counted from
  0001-01-01 as day 0.
\<close>

definition civil_from_days :: "int \<Rightarrow> int \<times> int \<times> int" where
  "civil_from_days n =
     (let z = n + 306;
          era = z div 146097;
          doe = z mod 146097;
          yoe = (doe - doe div 1460 + doe div 36524 - doe div 146096) div 365;
          doy = doe - (365 * yoe + yoe div 4 - yoe div 100);
          mp = (5 * doy + 2) div 153;
          dd = doy - (153 * mp + 2) div 5 + 1;
          mm = (if mp < 10 then mp + 3 else mp - 9);
          yy = yoe + era * 400 + (if mm \<le> 2 then 1 else 0)
      in (yy, mm, dd))"

text \<open>The offset suffix of \<open>isoformat\<close>: \<open>+HH:MM\<close>, with seconds and
  microseconds only when they are not zero.\<close>

definition iso_offset :: "int \<Rightarrow> pystr" where
  "iso_offset off =
     (let a = nat \<bar>off\<bar>;
          us = a mod 1000000;
          s = a div 1000000;
          hh = s div 3600;
          mi = (s mod 3600) div 60;
          ss = s mod 60
      in (if off < 0 then str ''-'' else str ''+'') @ zpad 2 hh @ str '':'' @ zpad 2 mi
         @ (if ss \<noteq> 0 \<or> us \<noteq> 0 then str '':'' @ zpad 2 ss else [])
         @ (if us \<noteq> 0 then str ''.'' @ zpad 6 us else []))"

text \<open>\<open>d.isoformat()\<close>: \<open>YYYY-MM-DDTHH:MM:SS\<close>, the microseconds when they are not
  zero, and the offset of an aware value.\<close>

definition isoformat :: "pydatetime \<Rightarrow> pystr" where
  "isoformat d =
     (let days = wall d div usec_per_day;
          rest = nat (wall d mod usec_per_day);
          us = rest mod 1000000;
          s = rest div 1000000;
          (yy, mm, dd) = civil_from_days days
      in zpad 4 (nat yy) @ str ''-'' @ zpad 2 (nat mm) @ str ''-'' @ zpad 2 (nat dd)
         @ str ''T'' @ zpad 2 (s div 3600) @ str '':'' @ zpad 2 ((s mod 3600) div 60)
         @ str '':'' @ zpad 2 (s mod 60)
         @ (if us \<noteq> 0 then str ''.'' @ zpad 6 us else [])
         @ (case tzinfo d of None \<Rightarrow> [] | Some off \<Rightarrow> iso_offset off))"

section \<open>The libraries the script calls\<close>

text \<open>
  What \<open>newspaper\<close>'s \<open>Article\<close> holds after \<open>download()\<close> and \<open>parse()\<close>, as
  far as the script reads it.
\<close>

record article =
  art_title :: pystr
  art_authors :: "pystr list"
  art_publish_date :: "pydatetime option"
  art_text :: pystr

text \<open>
  What \<open>urlopen\<close> gives for a robots file unless it raises an exception other than
  \<open>HTTPError\<close>: the status of the \<open>HTTPError\<close>, or a body, held as what its rules
  answer for a user agent and a URL.
\<close>

datatype fetched =
    HTTPError nat
  | Body "pystr \<Rightarrow> pystr \<Rightarrow> error + bool"

text \<open>The fields of a \<open>RobotFileParser\<close> that \<open>read\<close> sets and \<open>can_fetch\<close> reads.\<close>

record robot_parser =
  disallow_all :: bool
  allow_all :: bool
  last_checked :: bool
  rules :: "pystr \<Rightarrow> pystr \<Rightarrow> error + bool"

text \<open>
  The outcome of every call that leaves the script, for one run: each either raises
  (\<open>Inl\<close>) or returns (\<open>Inr\<close>).
  \<^item> \<open>newspaper_ok\<close>: the flag \<open>NEWSPAPER_OK\<close> set at import;
  \<^item> \<open>tf_fetch_url\<close>: \<open>trafilatura.fetch_url(url, no_ssl=True)\<close>, a page or \<open>None\<close>;
  \<^item> \<open>tf_extract\<close>: \<open>trafilatura.extract(downloaded, ...)\<close>, a JSON text or \<open>None\<close>;
  \<^item> \<open>json_loads\<close>: \<open>json.loads\<close>;
  \<^item> \<open>urlparse\<close>: \<open>urllib.parse.urlparse\<close>, its \<open>scheme\<close> and \<open>netloc\<close>;
  \<^item> \<open>article_parse\<close>: \<open>Article(url)\<close>, \<open>download()\<close> and \<open>parse()\<close>;
  \<^item> \<open>article_nlp\<close>: \<open>art.nlp()\<close>;
  \<^item> \<open>local_utcoffset\<close>: for a naive reading, the UTC offset that \<open>astimezone\<close> finds
    in the system's local time zone, or the exception its search raises;
  \<^item> \<open>robots_open\<close>: \<open>urllib.request.urlopen(robots_url)\<close> inside
    \<open>RobotFileParser.read\<close>, with the reading and decoding of the body;
  \<^item> \<open>persist\<close>: the file writes of \<open>save_markdown\<close>, \<open>append_jsonl\<close> and
    \<open>append_csv\<close> for one record.
\<close>

record env =
  newspaper_ok :: bool
  tf_fetch_url :: "pystr \<Rightarrow> error + pystr option"
  tf_extract :: "pystr \<Rightarrow> error + pystr option"
  json_loads :: "pystr \<Rightarrow> error + pyval"
  urlparse :: "pystr \<Rightarrow> error + (pystr \<times> pystr)"
  article_parse :: "pystr \<Rightarrow> error + article"
  article_nlp :: "article \<Rightarrow> error + unit"
  local_utcoffset :: "int \<Rightarrow> error + int"
  robots_open :: "pystr \<Rightarrow> error + fetched"
  persist :: "pydict \<Rightarrow> error + unit"

section \<open>The extractor adapters\<close>

text \<open>
  Lines 94 to 103, the body of the \<open>try\<close> of \<open>fetch_with_trafilatura\<close> after
  \<open>json.loads\<close>: \<open>data.get\<close> exists only on a \<open>dict\<close>; \<open>urlparse\<close> is called
  only when \<open>data.get("sitename")\<close> is falsy.
\<close>

definition normalize_keys :: "env \<Rightarrow> pystr \<Rightarrow> pyval \<Rightarrow> error + pydict" where
  "normalize_keys env url data =
     (case data of
        PDict d \<Rightarrow>
          (let title = dict_get d (str ''title'');
               authors = py_or (dict_get d (str ''author''))
                           (py_or (dict_get d (str ''authors'')) (PList []));
               date = dict_get d (str ''date'');
               text = dict_get d (str ''text'');
               sitename = dict_get d (str ''sitename'')
           in if truthy sitename
              then Inr [(str ''url'', PStr url), (str ''title'', title),
                        (str ''authors'', authors), (str ''date'', date),
                        (str ''text'', text), (str ''sitename'', sitename)]
              else (case urlparse env url of
                      Inl e \<Rightarrow> Inl e
                    | Inr (scheme, netloc) \<Rightarrow>
                        Inr [(str ''url'', PStr url), (str ''title'', title),
                             (str ''authors'', authors), (str ''date'', date),
                             (str ''text'', text), (str ''sitename'', PStr netloc)]))
      | _ \<Rightarrow> Inl (PyExc ''AttributeError''))"

text \<open>
  \<open>fetch_with_trafilatura\<close>: the calls of \<open>trafilatura.fetch_url\<close> and
  \<open>trafilatura.extract\<close> stand outside the \<open>try\<close>, so what they raise leaves the
  function; what \<open>json.loads\<close> and the normalisation raise becomes \<open>None\<close>.
\<close>

definition fetch_with_trafilatura :: "env \<Rightarrow> pystr \<Rightarrow> error + pydict option" where
  "fetch_with_trafilatura env url =
     (case tf_fetch_url env url of
        Inl e \<Rightarrow> Inl e
      | Inr downloaded \<Rightarrow>
          (case downloaded of
             None \<Rightarrow> Inr None
           | Some html \<Rightarrow>
               if html = [] then Inr None
               else (case tf_extract env html of
                       Inl e \<Rightarrow> Inl e
                     | Inr result_json \<Rightarrow>
                         (case result_json of
                            None \<Rightarrow> Inr None
                          | Some js \<Rightarrow>
                              if js = [] then Inr None
                              else (case json_loads env js of
                                      Inl e \<Rightarrow> Inr None
                                    | Inr data \<Rightarrow>
                                        (case normalize_keys env url data of
                                           Inl e \<Rightarrow> Inr None
                                         | Inr r \<Rightarrow> Inr (Some r)))))))"

text \<open>
  Lines 120 to 123: \<open>dt\<close> stays \<open>None\<close> without a publish date (a \<open>datetime\<close> is
  always truthy); otherwise the date is moved to UTC and written in ISO form.
\<close>

definition publish_date_iso :: "env \<Rightarrow> pydatetime option \<Rightarrow> error + pyval" where
  "publish_date_iso env pd =
     (case pd of
        None \<Rightarrow> Inr PNone
      | Some d \<Rightarrow>
          (case astimezone_utc (local_utcoffset env) d of
             Inl e \<Rightarrow> Inl e
           | Inr u \<Rightarrow> Inr (PStr (isoformat u))))"

text \<open>Lines 112 to 131, the body of the \<open>try\<close> of \<open>fetch_with_newspaper\<close>; what
  \<open>art.nlp()\<close> raises is dropped by the inner \<open>try\<close>.\<close>

definition newspaper_body :: "env \<Rightarrow> pystr \<Rightarrow> error + pydict" where
  "newspaper_body env url =
     (case article_parse env url of
        Inl e \<Rightarrow> Inl e
      | Inr art \<Rightarrow>
          (case article_nlp env art of
             _ \<Rightarrow>
               (case publish_date_iso env (art_publish_date art) of
                  Inl e \<Rightarrow> Inl e
                | Inr dt \<Rightarrow>
                    (case urlparse env url of
                       Inl e \<Rightarrow> Inl e
                     | Inr (scheme, netloc) \<Rightarrow>
                         Inr [(str ''url'', PStr url),
                              (str ''title'', py_or (PStr (art_title art)) PNone),
                              (str ''authors'',
                                 py_or (PList (map PStr (art_authors art))) (PList [])),
                              (str ''date'', dt),
                              (str ''text'', py_or (PStr (art_text art)) PNone),
                              (str ''sitename'', PStr netloc)]))))"

definition fetch_with_newspaper :: "env \<Rightarrow> pystr \<Rightarrow> error + pydict option" where
  "fetch_with_newspaper env url =
     (if \<not> newspaper_ok env then Inr None
      else (case newspaper_body env url of
              Inl e \<Rightarrow> Inr None
            | Inr r \<Rightarrow> Inr (Some r)))"

section \<open>The coalescer\<close>

text \<open>\<open>x and x.get("title") and x.get("text")\<close> as a condition, for \<open>x\<close> a record or
  \<open>None\<close>.\<close>

definition sufficient :: "pydict option \<Rightarrow> bool" where
  "sufficient x =
     (case x of
        None \<Rightarrow> False
      | Some d \<Rightarrow> d \<noteq> [] \<and> truthy (dict_get d (str ''title'')) \<and> truthy (dict_get d (str ''text'')))"

text \<open>Lines 148 and 149, one round of the loop over the keys; \<open>data[k]\<close> is
  \<open>data.get(k)\<close> where that is truthy.\<close>

definition backfill_key :: "pydict \<Rightarrow> pystr \<Rightarrow> pydict \<Rightarrow> pydict" where
  "backfill_key data k fallback =
     (if \<not> truthy (dict_get fallback k) \<and> truthy (dict_get data k)
      then AList.update k (dict_get data k) fallback
      else fallback)"

text \<open>Lines 146 to 149: the merge, run only when \<open>data\<close> is truthy.\<close>

definition backfill :: "pydict option \<Rightarrow> pydict \<Rightarrow> pydict" where
  "backfill data fallback =
     (case data of
        None \<Rightarrow> fallback
      | Some d \<Rightarrow>
          if d \<noteq> []
          then fold (backfill_key d) [str ''date'', str ''authors'', str ''sitename''] fallback
          else fallback)"

text \<open>Line 153: \<open>data or {"url": url}\<close>.\<close>

definition last_resort :: "pydict option \<Rightarrow> pystr \<Rightarrow> pydict" where
  "last_resort data url =
     (case data of
        None \<Rightarrow> [(str ''url'', PStr url)]
      | Some d \<Rightarrow> if d \<noteq> [] then d else [(str ''url'', PStr url)])"

text \<open>The adapters as they are invoked, in order.\<close>

datatype call = CallPrimary | CallFallback

text \<open>
  \<open>coalesce_article\<close>, with the adapters it invoked beside its outcome. It has no
  \<open>try\<close>: what an adapter raises leaves it.
\<close>

definition coalesce_article :: "env \<Rightarrow> pystr \<Rightarrow> call list \<times> (error + pydict)" where
  "coalesce_article env url =
     (case fetch_with_trafilatura env url of
        Inl e \<Rightarrow> ([CallPrimary], Inl e)
      | Inr data \<Rightarrow>
          (case (if sufficient data then data else None) of
             Some d \<Rightarrow> ([CallPrimary], Inr d)
           | None \<Rightarrow>
               (case fetch_with_newspaper env url of
                  Inl e \<Rightarrow> ([CallPrimary, CallFallback], Inl e)
                | Inr fallback \<Rightarrow>
                    (case (if sufficient fallback then fallback else None) of
                       Some f \<Rightarrow> ([CallPrimary, CallFallback], Inr (backfill data f))
                     | None \<Rightarrow> ([CallPrimary, CallFallback], Inr (last_resort data url))))))"

section \<open>The batch driver\<close>

text \<open>Lines 253 and 254 of \<open>main\<close>: a falsy or missing \<open>authors\<close> becomes the empty
  list; any other value stays.\<close>

definition finalize :: "pydict \<Rightarrow> pydict" where
  "finalize record =
     (if \<not> truthy (dict_get record (str ''authors''))
      then AList.update (str ''authors'') (PList []) record
      else record)"

text \<open>Lines 250 to 254: the record of one URL as it is handed to the three writers.\<close>

definition final_record :: "env \<Rightarrow> pystr \<Rightarrow> error + pydict" where
  "final_record env url =
     (case snd (coalesce_article env url) of
        Inl e \<Rightarrow> Inl e
      | Inr r \<Rightarrow> Inr (finalize (if r \<noteq> [] then r else [(str ''url'', PStr url)])))"

text \<open>Lines 180 to 182 of \<open>save_markdown\<close>: the authors the front matter lists.\<close>

definition md_authors :: "pydict \<Rightarrow> pyval" where
  "md_authors record =
     (let authors = py_or (dict_get record (str ''authors'')) (PList [])
      in case authors of PStr s \<Rightarrow> PList [PStr s] | _ \<Rightarrow> authors)"

definition DEFAULT_UA :: pystr where
  "DEFAULT_UA =
     str ''Mozilla/5.0 (compatible; IndoNewsCop/1.0; +https://github.com/<your-username>/indonewscop)''"

definition robots_url :: "pystr \<Rightarrow> pystr \<Rightarrow> pystr" where
  "robots_url scheme netloc = scheme @ str ''://'' @ netloc @ str ''/robots.txt''"

text \<open>
  \<open>urllib.robotparser\<close>. A new parser allows and denies nothing yet and has read
  nothing. \<open>read\<close> lets every exception but \<open>HTTPError\<close> pass; on status 401 or 403
  it sets \<open>disallow_all\<close>, on any other status from 400 to 499 \<open>allow_all\<close>, on any
  other status nothing; a body is parsed, which marks the parser as read.
  \<open>can_fetch\<close> answers \<open>False\<close> as long as nothing has been read.
\<close>

definition new_parser :: robot_parser where
  "new_parser =
     \<lparr>disallow_all = False, allow_all = False, last_checked = False,
      rules = (\<lambda>ua u. Inr True)\<rparr>"

definition rp_read :: "env \<Rightarrow> pystr \<Rightarrow> error + robot_parser" where
  "rp_read env url =
     (case robots_open env url of
        Inl e \<Rightarrow> Inl e
      | Inr (HTTPError code) \<Rightarrow>
          if code = 401 \<or> code = 403 then Inr (new_parser\<lparr>disallow_all := True\<rparr>)
          else if 400 \<le> code \<and> code < 500 then Inr (new_parser\<lparr>allow_all := True\<rparr>)
          else Inr new_parser
      | Inr (Body r) \<Rightarrow> Inr (new_parser\<lparr>last_checked := True, rules := r\<rparr>))"

definition can_fetch :: "robot_parser \<Rightarrow> pystr \<Rightarrow> pystr \<Rightarrow> error + bool" where
  "can_fetch rp useragent url =
     (if disallow_all rp then Inr False
      else if allow_all rp then Inr True
      else if \<not> last_checked rp then Inr False
      else rules rp useragent url)"

text \<open>\<open>robots_allowed\<close>: \<open>urlparse\<close> stands before the \<open>try\<close>; whatever reading
  the policy or asking it raises is answered with \<open>True\<close>.\<close>

definition robots_allowed :: "env \<Rightarrow> pystr \<Rightarrow> error + bool" where
  "robots_allowed env url =
     (case urlparse env url of
        Inl e \<Rightarrow> Inl e
      | Inr (scheme, netloc) \<Rightarrow>
          (case rp_read env (robots_url scheme netloc) of
             Inl e \<Rightarrow> Inr True
           | Inr rp \<Rightarrow>
               (case can_fetch rp DEFAULT_UA url of
                  Inl e \<Rightarrow> Inr True
                | Inr allowed \<Rightarrow> Inr allowed)))"

text \<open>
  What the loop of \<open>main\<close> does that can be seen from outside, in order: a URL skipped
  for its robots policy, a record written, a pause between two requests.
\<close>

datatype event = Skipped pystr | Saved pydict | Slept

text \<open>
  The loop of \<open>main\<close> over the URLs (lines 244 to 263), with the events so far and the
  exception that ended the run, if one did. \<open>robots_allowed\<close> is not called under
  \<open>--skip-robots\<close>; \<open>continue\<close> also skips the pause; the pause follows every URL
  but the last.
\<close>

fun main_loop :: "env \<Rightarrow> bool \<Rightarrow> pystr list \<Rightarrow> event list \<times> error option" where
  "main_loop env skip_robots [] = ([], None)"
| "main_loop env skip_robots (url # rest) =
     (case (if skip_robots then Inr True else robots_allowed env url) of
        Inl e \<Rightarrow> ([], Some e)
      | Inr allowed \<Rightarrow>
          if \<not> allowed
          then (case main_loop env skip_robots rest of (evs, r) \<Rightarrow> (Skipped url # evs, r))
          else (case final_record env url of
                  Inl e \<Rightarrow> ([], Some e)
                | Inr record \<Rightarrow>
                    (case persist env record of
                       Inl e \<Rightarrow> ([], Some e)
                     | Inr u \<Rightarrow>
                         (case main_loop env skip_robots rest of
                            (evs, r) \<Rightarrow>
                              (Saved record # (if rest \<noteq> [] then [Slept] else []) @ evs, r)))))"

section \<open>File names\<close>

text \<open>The code points \<open>str.isspace\<close> accepts; \<open>str.strip\<close> and the class \<open>\s\<close> of
  \<open>re\<close> on a \<open>str\<close> pattern use the same test.\<close>

definition isspace :: "nat \<Rightarrow> bool" where
  "isspace c =
     ((9 \<le> c \<and> c \<le> 13) \<or> (28 \<le> c \<and> c \<le> 32) \<or> c = 133 \<or> c = 160 \<or> c = 5760
      \<or> (8192 \<le> c \<and> c \<le> 8202) \<or> c = 8232 \<or> c = 8233 \<or> c = 8239 \<or> c = 8287
      \<or> c = 12288)"

text \<open>\<open>s.rstrip(chars)\<close> for the characters that satisfy \<open>P\<close>, and \<open>s.strip()\<close>.\<close>

definition rstrip_chars :: "(nat \<Rightarrow> bool) \<Rightarrow> pystr \<Rightarrow> pystr" where
  "rstrip_chars P s = rev (dropWhile P (rev s))"

definition strip :: "pystr \<Rightarrow> pystr" where
  "strip s = dropWhile isspace (rstrip_chars isspace s)"

text \<open>
  \<open>s.lower()\<close>: the ASCII capitals move to their small letters and the other ASCII
  code points stay. The lower-case forms of the code points from 128 on come from the
  Unicode database and may depend on the neighbours of the code point (the final
  sigma) and be several code points long: \<open>tbl s i\<close> is the lower-case form of the
  code point at position \<open>i\<close> of \<open>s\<close>.
\<close>

definition lower :: "(pystr \<Rightarrow> nat \<Rightarrow> pystr) \<Rightarrow> pystr \<Rightarrow> pystr" where
  "lower tbl s =
     concat (map (\<lambda>(i, c). if 65 \<le> c \<and> c \<le> 90 then [c + 32]
                           else if c < 128 then [c] else tbl s i)
                 (enumerate 0 s))"

text \<open>The class \<open>[a-z0-9\s\-_.]\<close>, whose complement the first substitution deletes.\<close>

definition slug_keep :: "nat \<Rightarrow> bool" where
  "slug_keep c =
     ((97 \<le> c \<and> c \<le> 122) \<or> (48 \<le> c \<and> c \<le> 57) \<or> isspace c \<or> c = 45 \<or> c = 95 \<or> c = 46)"

text \<open>\<open>re.sub(r"\s+", "-", text)\<close>: every maximal run of white space becomes one hyphen.\<close>

function collapse_ws :: "pystr \<Rightarrow> pystr" where
  "collapse_ws [] = []"
| "collapse_ws (c # cs) =
     (if isspace c then 45 # collapse_ws (dropWhile isspace cs) else c # collapse_ws cs)"
  by pat_completeness auto
termination
  by (relation "measure length") (auto simp: length_dropWhile_le less_Suc_eq_le)

text \<open>Lines 52 to 56 of \<open>slugify\<close>, and line 57 after them.\<close>

definition slug_body :: "(pystr \<Rightarrow> nat \<Rightarrow> pystr) \<Rightarrow> pystr \<Rightarrow> nat \<Rightarrow> pystr" where
  "slug_body tbl text max_len =
     (let t1 = lower tbl (strip text);
          t2 = filter slug_keep t1;
          t3 = collapse_ws t2
      in if length t3 > max_len
         then rstrip_chars (\<lambda>c. c = 45 \<or> c = 95) (take max_len t3)
         else t3)"

definition slugify :: "(pystr \<Rightarrow> nat \<Rightarrow> pystr) \<Rightarrow> pystr \<Rightarrow> nat \<Rightarrow> pystr" where
  "slugify tbl text max_len =
     (let t = slug_body tbl text max_len in if t \<noteq> [] then t else str ''untitled'')"

section \<open>What the claims speak of\<close>

text \<open>A field of the primary result, \<open>None\<close> when there is no primary result.\<close>

definition opt_get :: "pydict option \<Rightarrow> pystr \<Rightarrow> pyval" where
  "opt_get data k = (case data of None \<Rightarrow> PNone | Some d \<Rightarrow> dict_get d k)"

text \<open>The offset \<open>astimezone\<close> subtracts in a run: the date's own, or the one found
  in the system's local time zone for a naive date; or the exception in its place.\<close>

definition utc_offset_of :: "env \<Rightarrow> pydatetime \<Rightarrow> error + int" where
  "utc_offset_of env d = offset_for (local_utcoffset env) d"

text \<open>A value that is a list all of whose members are strings.\<close>

definition is_str :: "pyval \<Rightarrow> bool" where
  "is_str v = (case v of PStr s \<Rightarrow> True | _ \<Rightarrow> False)"

definition is_str_seq :: "pyval \<Rightarrow> bool" where
  "is_str_seq v = (case v of PList xs \<Rightarrow> list_all is_str xs | _ \<Rightarrow> False)"

text \<open>The code points a file name may have: small letters, digits, hyphen, underscore
  and dot.\<close>

definition slug_char :: "nat \<Rightarrow> bool" where
  "slug_char c =
     ((97 \<le> c \<and> c \<le> 122) \<or> (48 \<le> c \<and> c \<le> 57) \<or> c = 45 \<or> c = 95 \<or> c = 46)"

section \<open>Sample runs\<close>

text \<open>A run in which nothing can be fetched, the fallback extractor is not installed and
  the system's time zone is UTC.\<close>

definition env_fail :: env where
  "env_fail =
     \<lparr>newspaper_ok = False,
      tf_fetch_url = (\<lambda>u. Inr None),
      tf_extract = (\<lambda>h. Inr None),
      json_loads = (\<lambda>j. Inl (PyExc ''JSONDecodeError'')),
      urlparse = (\<lambda>u. Inr (str ''https'', str ''example.com'')),
      article_parse = (\<lambda>u. Inl (PyExc ''ArticleException'')),
      article_nlp = (\<lambda>a. Inr ()),
      local_utcoffset = fixed_zone 0,
      robots_open = (\<lambda>r. Inl (PyExc ''URLError'')),
      persist = (\<lambda>r. Inr ())\<rparr>"

text \<open>The same run with a page whose extraction decodes to \<open>data\<close>, and with an
  article the fallback extractor parses.\<close>

definition env_primary :: "pyval \<Rightarrow> env \<Rightarrow> env" where
  "env_primary data env =
     env\<lparr>tf_fetch_url := (\<lambda>u. Inr (Some (str ''<html>''))),
         tf_extract := (\<lambda>h. Inr (Some (str ''{}''))),
         json_loads := (\<lambda>j. Inr data)\<rparr>"

definition env_fallback :: "article \<Rightarrow> env \<Rightarrow> env" where
  "env_fallback art env = env\<lparr>newspaper_ok := True, article_parse := (\<lambda>u. Inr art)\<rparr>"

definition url1 :: pystr where
  "url1 = str ''https://example.com/a''"

text \<open>Scenario 1 of the specification: both extractors succeed.\<close>

definition data1 :: pyval where
  "data1 = PDict [(str ''title'', PStr (str ''A'')), (str ''text'', PStr (str ''Body'')),
                  (str ''date'', PNone)]"

definition art1 :: article where
  "art1 = \<lparr>art_title = str ''A2'', art_authors = [str ''X''], art_publish_date = None,
            art_text = str ''Body2''\<rparr>"

definition env1 :: env where
  "env1 = env_fallback art1 (env_primary data1 env_fail)"

definition rec1 :: pydict where
  "rec1 = [(str ''url'', PStr url1), (str ''title'', PStr (str ''A'')),
           (str ''authors'', PList []), (str ''date'', PNone),
           (str ''text'', PStr (str ''Body'')), (str ''sitename'', PStr (str ''example.com''))]"

text \<open>Scenario 2 of the specification: the primary extractor finds a date and a site
  name but neither title nor text; the fallback finds title and text.\<close>

definition data2 :: pyval where
  "data2 = PDict [(str ''title'', PNone), (str ''text'', PNone),
                  (str ''date'', PStr (str ''2023-05-01'')),
                  (str ''sitename'', PStr (str ''site.com''))]"

definition art2 :: article where
  "art2 = \<lparr>art_title = str ''T'', art_authors = [], art_publish_date = None,
            art_text = str ''Body''\<rparr>"

definition env2 :: env where
  "env2 = env_fallback art2 (env_primary data2 env_fail)"

definition prim2 :: pydict where
  "prim2 = [(str ''url'', PStr url1), (str ''title'', PNone),
            (str ''authors'', PList []), (str ''date'', PStr (str ''2023-05-01'')),
            (str ''text'', PNone), (str ''sitename'', PStr (str ''site.com''))]"

definition fall2 :: pydict where
  "fall2 = [(str ''url'', PStr url1), (str ''title'', PStr (str ''T'')),
            (str ''authors'', PList []), (str ''date'', PNone),
            (str ''text'', PStr (str ''Body'')), (str ''sitename'', PStr (str ''example.com''))]"


text \<open>A page for which the primary extractor reports one author, as a string.\<close>

definition data4 :: pyval where
  "data4 = PDict [(str ''title'', PStr (str ''T'')), (str ''text'', PStr (str ''Body'')),
                  (str ''author'', PStr (str ''Jane''))]"

definition env4 :: env where
  "env4 = env_primary data4 env_fail"

definition rec4 :: pydict where
  "rec4 = [(str ''url'', PStr url1), (str ''title'', PStr (str ''T'')),
           (str ''authors'', PStr (str ''Jane'')), (str ''date'', PNone),
           (str ''text'', PStr (str ''Body'')), (str ''sitename'', PStr (str ''example.com''))]"

text \<open>A page is downloaded and \<open>trafilatura.extract\<close> raises.\<close>

definition env5 :: env where
  "env5 = env_fail\<lparr>tf_fetch_url := (\<lambda>u. Inr (Some (str ''<html>''))),
                   tf_extract := (\<lambda>h. Inl (PyExc ''TypeError''))\<rparr>"

definition url2 :: pystr where
  "url2 = str ''https://example.com/b''"

text \<open>An article dated 2024-01-01T12:00:00 without time zone, read on a system whose
  local time is seven hours ahead of UTC.\<close>

definition d8 :: pydatetime where
  "d8 = \<lparr>wall = 63839707200000000, tzinfo = None\<rparr>"

definition art8 :: article where
  "art8 = \<lparr>art_title = str ''T'', art_authors = [], art_publish_date = Some d8,
            art_text = str ''Body''\<rparr>"

definition env8 :: env where
  "env8 = env_fallback art8 (env_fail\<lparr>local_utcoffset := fixed_zone 25200000000\<rparr>)"

definition rec8 :: pydict where
  "rec8 = [(str ''url'', PStr url1), (str ''title'', PStr (str ''T'')),
           (str ''authors'', PList []),
           (str ''date'', PStr (str ''2024-01-01T05:00:00+00:00'')),
           (str ''text'', PStr (str ''Body'')), (str ''sitename'', PStr (str ''example.com''))]"

text \<open>A robots policy that denies the first URL and allows every other.\<close>

definition env9 :: env where
  "env9 = env_fail\<lparr>robots_open := (\<lambda>r. Inr (Body (\<lambda>ua u. Inr (u \<noteq> url1))))\<rparr>"

definition stub2 :: pydict where
  "stub2 = [(str ''url'', PStr url2), (str ''authors'', PList [])]"

text \<open>An article dated 0001-01-01T00:00:00 without time zone, read on a system in UTC.\<close>

definition d_min :: pydatetime where
  "d_min = \<lparr>wall = 0, tzinfo = None\<rparr>"

definition art_min :: article where
  "art_min = \<lparr>art_title = str ''T'', art_authors = [], art_publish_date = Some d_min,
               art_text = str ''Body''\<rparr>"

definition env_min :: env where
  "env_min = env_fallback art_min env_fail"

text \<open>A host that answers the request for its robots file with status 503.\<close>

definition env_503 :: env where
  "env_503 = env_fail\<lparr>robots_open := (\<lambda>r. Inr (HTTPError 503))\<rparr>"

text \<open>A URL with an unclosed bracket in its host, which \<open>urlparse\<close> refuses.\<close>

definition url_bad :: pystr where
  "url_bad = str ''http://[bad''"

definition env_bad :: env where
  "env_bad =
     env_fail\<lparr>urlparse := (\<lambda>u. if u = url_bad then Inl (PyExc ''ValueError'')
                                 else Inr (str ''https'', str ''example.com''))\<rparr>"

section \<open>Facts about records and adapters\<close>

lemmas env_defs = env_fail_def env_primary_def env_fallback_def

lemmas run_defs = fetch_with_trafilatura_def normalize_keys_def fetch_with_newspaper_def
  newspaper_body_def publish_date_iso_def dict_get_def py_or_def Let_def str_def

lemma key_neq [simp]:
  "str ''url'' \<noteq> str ''date''" "str ''url'' \<noteq> str ''authors''"
  "str ''url'' \<noteq> str ''sitename''" "str ''title'' \<noteq> str ''date''"
  "str ''title'' \<noteq> str ''authors''" "str ''title'' \<noteq> str ''sitename''"
  "str ''text'' \<noteq> str ''date''" "str ''text'' \<noteq> str ''authors''"
  "str ''text'' \<noteq> str ''sitename''" "str ''date'' \<noteq> str ''authors''"
  "str ''date'' \<noteq> str ''sitename''" "str ''authors'' \<noteq> str ''sitename''"
  "str ''url'' \<noteq> str ''title''" "str ''url'' \<noteq> str ''text''"
  "str ''title'' \<noteq> str ''text''"
  by (simp_all add: str_def)

lemma dict_get_Nil [simp]: "dict_get [] k = PNone"
  by (simp add: dict_get_def)

text \<open>Both adapters build a record of the same six keys, the URL first.\<close>

lemma trafilatura_shape:
  assumes "fetch_with_trafilatura env url = Inr (Some p)"
  shows "\<exists>t a d x s. p = [(str ''url'', PStr url), (str ''title'', t), (str ''authors'', a),
                           (str ''date'', d), (str ''text'', x), (str ''sitename'', s)]"
  using assms
  by (auto simp: fetch_with_trafilatura_def normalize_keys_def Let_def
           split: sum.splits option.splits if_splits pyval.splits prod.splits)

lemma newspaper_shape:
  assumes "fetch_with_newspaper env url = Inr (Some p)"
  shows "\<exists>t a d x s. p = [(str ''url'', PStr url), (str ''title'', t), (str ''authors'', a),
                           (str ''date'', d), (str ''text'', x), (str ''sitename'', s)]"
  using assms
  by (auto simp: fetch_with_newspaper_def newspaper_body_def Let_def
           split: sum.splits option.splits if_splits prod.splits)

lemma newspaper_returns: "\<exists>r. fetch_with_newspaper env url = Inr r"
  by (simp add: fetch_with_newspaper_def split: sum.splits)

text \<open>The primary adapter reads nothing of what only the fallback adapter uses.\<close>

lemma normalize_keys_indep:
  "normalize_keys (env\<lparr>newspaper_ok := b, article_parse := ap, article_nlp := an,
      local_utcoffset := lo\<rparr>) url data = normalize_keys env url data"
  by (simp add: normalize_keys_def Let_def split: pyval.splits)

lemma trafilatura_indep:
  "fetch_with_trafilatura (env\<lparr>newspaper_ok := b, article_parse := ap, article_nlp := an,
      local_utcoffset := lo\<rparr>) url = fetch_with_trafilatura env url"
  by (simp add: fetch_with_trafilatura_def normalize_keys_indep split: sum.splits option.splits)

lemma sufficient_SomeI:
  "truthy (dict_get p (str ''title'')) \<Longrightarrow> truthy (dict_get p (str ''text'')) \<Longrightarrow>
   sufficient (Some p)"
  by (auto simp: sufficient_def)

text \<open>One round of the merge changes the key it is run for, and only when the fallback
  lacks a value that the primary result has.\<close>

lemma dict_get_backfill_key:
  "dict_get (backfill_key d k f) k' =
     (if k' = k \<and> \<not> truthy (dict_get f k) \<and> truthy (dict_get d k) then dict_get d k
      else dict_get f k')"
  by (simp add: backfill_key_def dict_get_def update_conv')

lemma map_of_backfill_key:
  "k' \<noteq> k \<Longrightarrow> map_of (backfill_key d k f) k' = map_of f k'"
  by (simp add: backfill_key_def update_conv')

lemma dict_get_backfill:
  "dict_get (backfill data f) k =
     (if k \<in> {str ''date'', str ''authors'', str ''sitename''}
         \<and> \<not> truthy (dict_get f k) \<and> truthy (opt_get data k)
      then opt_get data k else dict_get f k)"
  by (cases data) (auto simp: backfill_def opt_get_def dict_get_backfill_key)

lemma map_of_backfill:
  "k \<notin> {str ''date'', str ''authors'', str ''sitename''} \<Longrightarrow>
   map_of (backfill data f) k = map_of f k"
  by (cases data) (auto simp: backfill_def map_of_backfill_key)

lemma backfill_url: "map_of (backfill data f) (str ''url'') = map_of f (str ''url'')"
  by (rule map_of_backfill) simp

lemma env1_primary: "fetch_with_trafilatura env1 url1 = Inr (Some rec1)"
  by (simp add: env1_def data1_def rec1_def url1_def env_defs run_defs)

lemma rec1_sufficient:
  "truthy (dict_get rec1 (str ''title''))" "truthy (dict_get rec1 (str ''text''))"
  by (simp_all add: rec1_def dict_get_def str_def)

lemma env2_primary: "fetch_with_trafilatura env2 url1 = Inr (Some prim2)"
  by (simp add: env2_def data2_def prim2_def url1_def env_defs run_defs)

lemma env2_fallback: "fetch_with_newspaper env2 url1 = Inr (Some fall2)"
  by (simp add: env2_def art2_def fall2_def url1_def env_defs run_defs)

lemma prim2_insufficient: "\<not> sufficient (Some prim2)"
  by (simp add: sufficient_def prim2_def dict_get_def str_def)

lemma fall2_sufficient: "sufficient (Some fall2)"
  by (simp add: sufficient_def fall2_def dict_get_def str_def)



section \<open>The coalescer: results\<close>

text \<open>
  Claim C1. When the primary adapter returns a record whose title and text are both
  truthy (for strings: not empty), \<open>coalesce_article\<close> returns that very record, all
  six fields as the adapter built them, and invokes the primary adapter only: the
  outcome is the same whatever the fallback extractor's availability flag, article,
  keyword step and the local time zone are.
\<close>

theorem coalesce_primary_sufficient:
  assumes "fetch_with_trafilatura env url = Inr (Some p)"
    and "truthy (dict_get p (str ''title''))"
    and "truthy (dict_get p (str ''text''))"
  shows "coalesce_article env url = ([CallPrimary], Inr p) \<and>
         (\<forall>b ap an lo. coalesce_article (env\<lparr>newspaper_ok := b, article_parse := ap,
              article_nlp := an, local_utcoffset := lo\<rparr>) url = ([CallPrimary], Inr p))"
proof -
  have s: "sufficient (Some p)"
    using assms(2,3) by (rule sufficient_SomeI)
  have "coalesce_article e url = ([CallPrimary], Inr p)"
    if "fetch_with_trafilatura e url = Inr (Some p)" for e
    using that s by (simp add: coalesce_article_def)
  then show ?thesis
    using assms(1) by (simp add: trafilatura_indep)
qed

theorem coalesce_primary_sufficient_witness:
  "fetch_with_trafilatura env1 url1 = Inr (Some rec1) \<and>
   truthy (dict_get rec1 (str ''title'')) \<and> truthy (dict_get rec1 (str ''text'')) \<and>
   coalesce_article env1 url1 = ([CallPrimary], Inr rec1)"
  using coalesce_primary_sufficient [OF env1_primary rec1_sufficient]
    env1_primary rec1_sufficient
  by simp

text \<open>
  Claim C2. When the primary result is insufficient (absent, or its title or its text
  falsy) and the fallback record has a truthy title and text, the returned record has
  the fallback's title and text; each of \<open>date\<close>, \<open>authors\<close> and \<open>sitename\<close> holds
  the primary's value when the fallback's is falsy or absent and the primary's is
  truthy, and the fallback's value otherwise; every other key, title and text among
  them, is as in the fallback record.
\<close>

theorem coalesce_fallback_backfill:
  assumes "fetch_with_trafilatura env url = Inr data"
    and "\<not> sufficient data"
    and "fetch_with_newspaper env url = Inr (Some f)"
    and "sufficient (Some f)"
  shows "\<exists>r. coalesce_article env url = ([CallPrimary, CallFallback], Inr r) \<and>
           dict_get r (str ''title'') = dict_get f (str ''title'') \<and>
           dict_get r (str ''text'') = dict_get f (str ''text'') \<and>
           (\<forall>k \<in> {str ''date'', str ''authors'', str ''sitename''}.
              dict_get r k =
                (if \<not> truthy (dict_get f k) \<and> truthy (opt_get data k) then opt_get data k
                 else dict_get f k)) \<and>
           (\<forall>k. k \<notin> {str ''date'', str ''authors'', str ''sitename''} \<longrightarrow>
              map_of r k = map_of f k)"
proof -
  have "coalesce_article env url = ([CallPrimary, CallFallback], Inr (backfill data f))"
    using assms by (simp add: coalesce_article_def)
  moreover have "dict_get (backfill data f) (str ''title'') = dict_get f (str ''title'')"
    "dict_get (backfill data f) (str ''text'') = dict_get f (str ''text'')"
    by (simp_all add: dict_get_backfill)
  moreover have "\<forall>k \<in> {str ''date'', str ''authors'', str ''sitename''}.
      dict_get (backfill data f) k =
        (if \<not> truthy (dict_get f k) \<and> truthy (opt_get data k) then opt_get data k
         else dict_get f k)"
    by (simp add: dict_get_backfill)
  moreover have "\<forall>k. k \<notin> {str ''date'', str ''authors'', str ''sitename''} \<longrightarrow>
      map_of (backfill data f) k = map_of f k"
    using map_of_backfill by blast
  ultimately show ?thesis by blast
qed

theorem coalesce_fallback_backfill_witness:
  "fetch_with_trafilatura env2 url1 = Inr (Some prim2) \<and> \<not> sufficient (Some prim2) \<and>
   fetch_with_newspaper env2 url1 = Inr (Some fall2) \<and> sufficient (Some fall2) \<and>
   (\<exists>r. coalesce_article env2 url1 = ([CallPrimary, CallFallback], Inr r) \<and>
        dict_get r (str ''title'') = PStr (str ''T'') \<and>
        dict_get r (str ''text'') = PStr (str ''Body'') \<and>
        dict_get r (str ''date'') = PStr (str ''2023-05-01'') \<and>
        dict_get r (str ''authors'') = PList [] \<and>
        dict_get r (str ''sitename'') = PStr (str ''example.com''))"
proof -
  obtain r where c: "coalesce_article env2 url1 = ([CallPrimary, CallFallback], Inr r)"
    and t: "dict_get r (str ''title'') = dict_get fall2 (str ''title'')"
    and x: "dict_get r (str ''text'') = dict_get fall2 (str ''text'')"
    and k: "\<forall>k \<in> {str ''date'', str ''authors'', str ''sitename''}.
              dict_get r k =
                (if \<not> truthy (dict_get fall2 k) \<and> truthy (opt_get (Some prim2) k)
                 then opt_get (Some prim2) k else dict_get fall2 k)"
    using coalesce_fallback_backfill
      [OF env2_primary prim2_insufficient env2_fallback fall2_sufficient]
    by blast
  have "dict_get r (str ''title'') = PStr (str ''T'')"
    using t by (simp add: fall2_def dict_get_def str_def)
  moreover have "dict_get r (str ''text'') = PStr (str ''Body'')"
    using x by (simp add: fall2_def dict_get_def str_def)
  moreover have "dict_get r (str ''date'') = PStr (str ''2023-05-01'')"
    using k by (simp add: fall2_def prim2_def opt_get_def dict_get_def str_def)
  moreover have "dict_get r (str ''authors'') = PList []"
    using k by (simp add: fall2_def prim2_def opt_get_def dict_get_def str_def)
  moreover have "dict_get r (str ''sitename'') = PStr (str ''example.com'')"
    using k by (simp add: fall2_def prim2_def opt_get_def dict_get_def str_def)
  ultimately show ?thesis
    using c env2_primary prim2_insufficient env2_fallback fall2_sufficient by blast
qed



text \<open>
  Claim C6. The outcome of \<open>coalesce_article\<close> for a URL is determined by what the two
  adapters return for it: two runs in which both adapters behave alike end alike,
  whatever else differs between the runs.
\<close>

theorem coalesce_function_of_adapters:
  assumes "fetch_with_trafilatura env url = fetch_with_trafilatura env' url"
    and "fetch_with_newspaper env url = fetch_with_newspaper env' url"
  shows "coalesce_article env url = coalesce_article env' url"
  unfolding coalesce_article_def assms by (rule refl)

theorem coalesce_function_of_adapters_witness:
  "fetch_with_trafilatura env2 url1 =
     fetch_with_trafilatura (env2\<lparr>persist := (\<lambda>r. Inl (PyExc ''OSError''))\<rparr>) url1 \<and>
   fetch_with_newspaper env2 url1 =
     fetch_with_newspaper (env2\<lparr>persist := (\<lambda>r. Inl (PyExc ''OSError''))\<rparr>) url1 \<and>
   coalesce_article env2 url1 =
     coalesce_article (env2\<lparr>persist := (\<lambda>r. Inl (PyExc ''OSError''))\<rparr>) url1"
proof -
  have a: "fetch_with_trafilatura env2 url1 =
      fetch_with_trafilatura (env2\<lparr>persist := (\<lambda>r. Inl (PyExc ''OSError''))\<rparr>) url1"
    by (simp add: env2_def data2_def url1_def env_defs run_defs)
  have b: "fetch_with_newspaper env2 url1 =
      fetch_with_newspaper (env2\<lparr>persist := (\<lambda>r. Inl (PyExc ''OSError''))\<rparr>) url1"
    by (simp add: env2_def art2_def url1_def env_defs run_defs)
  from coalesce_function_of_adapters [OF a b] a b show ?thesis by simp
qed

lemma coalesce_has_url:
  assumes c: "coalesce_article env url = (cs, Inr r)"
  shows "map_of r (str ''url'') = Some (PStr url)"
proof -
  have p: "map_of d (str ''url'') = Some (PStr url)"
    if "fetch_with_trafilatura env url = Inr (Some d)" for d
    using trafilatura_shape [OF that] by auto
  have q: "map_of d (str ''url'') = Some (PStr url)"
    if "fetch_with_newspaper env url = Inr (Some d)" for d
    using newspaper_shape [OF that] by auto
  show ?thesis
  proof (cases "fetch_with_trafilatura env url")
    case (Inl e)
    with c show ?thesis by (simp add: coalesce_article_def)
  next
    case (Inr data)
    note tf = this
    show ?thesis
    proof (cases "sufficient data")
      case True
      then obtain d where d: "data = Some d" by (cases data) (auto simp: sufficient_def)
      with True tf c have "r = d" by (simp add: coalesce_article_def)
      with p tf d show ?thesis by simp
    next
      case False
      note ns = this
      obtain fb where fb: "fetch_with_newspaper env url = Inr fb"
        using newspaper_returns by blast
      show ?thesis
      proof (cases "sufficient fb")
        case True
        then obtain g where g: "fb = Some g" by (cases fb) (auto simp: sufficient_def)
        with True ns tf fb c have "r = backfill data g" by (simp add: coalesce_article_def)
        with q fb g show ?thesis by (simp add: backfill_url)
      next
        case False
        with ns tf fb c have r: "r = last_resort data url" by (simp add: coalesce_article_def)
        show ?thesis
        proof (cases data)
          case None
          with r show ?thesis by (simp add: last_resort_def)
        next
          case (Some d)
          with p tf r show ?thesis by (simp add: last_resort_def)
        qed
      qed
    qed
  qed
qed

text \<open>
  Claim C7. Every record \<open>coalesce_article\<close> returns, on whichever path, has the key
  \<open>url\<close> with the input URL as its value, and the merge leaves the fallback record's
  \<open>url\<close> as it was.
\<close>

theorem coalesce_url_present:
  "(coalesce_article env url = (cs, Inr r) \<longrightarrow> map_of r (str ''url'') = Some (PStr url)) \<and>
   map_of (backfill data f) (str ''url'') = map_of f (str ''url'')"
  using coalesce_has_url backfill_url by blast

theorem coalesce_url_present_witness:
  "coalesce_article env1 url1 = ([CallPrimary], Inr rec1) \<and>
   map_of rec1 (str ''url'') = Some (PStr url1) \<and>
   map_of (backfill (Some prim2) fall2) (str ''url'') = Some (PStr url1)"
proof -
  have c: "coalesce_article env1 url1 = ([CallPrimary], Inr rec1)"
    using env1_primary rec1_sufficient
    by (simp add: coalesce_article_def sufficient_def rec1_def)
  have f: "map_of fall2 (str ''url'') = Some (PStr url1)"
    by (simp add: fall2_def)
  from coalesce_url_present [of env1 url1 "[CallPrimary]" rec1 "Some prim2" fall2] c f
  show ?thesis by simp
qed

section \<open>The authors field\<close>

lemma env4_primary: "fetch_with_trafilatura env4 url1 = Inr (Some rec4)"
  by (simp add: env4_def data4_def rec4_def url1_def env_defs run_defs)

lemma env4_final: "final_record env4 url1 = Inr rec4"
proof -
  have "sufficient (Some rec4)"
    by (simp add: sufficient_def rec4_def dict_get_def str_def)
  then have "coalesce_article env4 url1 = ([CallPrimary], Inr rec4)"
    by (simp add: coalesce_article_def env4_primary)
  moreover have "finalize rec4 = rec4" "rec4 \<noteq> []"
    by (simp_all add: finalize_def rec4_def dict_get_def str_def)
  ultimately show ?thesis
    by (simp add: final_record_def)
qed

lemma rec4_authors: "dict_get rec4 (str ''authors'') = PStr (str ''Jane'')"
  by (simp add: rec4_def dict_get_def str_def)

text \<open>
  Claim C4 as stated fails: when the primary extractor's JSON gives \<open>author\<close> as the
  string \<open>Jane\<close> beside a title and a text, the record that leaves the finalisation
  step has that bare string as its \<open>authors\<close>, not a sequence of strings.
\<close>

theorem final_authors_bare_string:
  "final_record env4 url1 = Inr rec4 \<and>
   dict_get rec4 (str ''authors'') = PStr (str ''Jane'') \<and>
   \<not> is_str_seq (dict_get rec4 (str ''authors''))"
  using env4_final rec4_authors by (simp add: is_str_seq_def)

lemma md_authors_not_str: "md_authors r \<noteq> PStr s"
  by (simp add: md_authors_def Let_def split: pyval.splits)

lemma finalize_authors:
  "map_of (finalize c) (str ''authors'') =
     Some (if truthy (dict_get c (str ''authors'')) then dict_get c (str ''authors'')
           else PList [])"
  by (auto simp: finalize_def dict_get_def update_conv' split: option.splits)

lemma finalize_other: "k \<noteq> str ''authors'' \<Longrightarrow> map_of (finalize c) k = map_of c k"
  by (simp add: finalize_def update_conv')

text \<open>
  Claim C4, amended. In the record that leaves the finalisation step the key
  \<open>authors\<close> is always present: it holds the value the coalescer returned when that
  is truthy, unchanged (a bare string stays a bare string), and the empty list
  otherwise; no other key is touched. What \<open>save_markdown\<close> lists in the front matter
  is never a bare string: there a string is wrapped into a list of one.
\<close>

theorem final_authors_present:
  assumes "final_record env url = Inr r"
  shows "\<exists>c. snd (coalesce_article env url) = Inr c \<and>
           map_of r (str ''authors'') =
             Some (if truthy (dict_get c (str ''authors'')) then dict_get c (str ''authors'')
                   else PList []) \<and>
           (\<forall>k. k \<noteq> str ''authors'' \<longrightarrow> map_of r k = map_of c k) \<and>
           (\<forall>s. md_authors r \<noteq> PStr s) \<and>
           (\<forall>s. dict_get r (str ''authors'') = PStr s \<longrightarrow> md_authors r = PList [PStr s])"
proof -
  obtain c where c: "snd (coalesce_article env url) = Inr c"
    using assms by (auto simp: final_record_def split: sum.splits)
  obtain cs where cs: "coalesce_article env url = (cs, Inr c)"
    using c by (cases "coalesce_article env url") simp
  have "map_of c (str ''url'') = Some (PStr url)"
    using cs by (rule coalesce_has_url)
  then have "c \<noteq> []" by auto
  with c assms have r: "r = finalize c"
    by (simp add: final_record_def)
  have t: "truthy (dict_get r (str ''authors'')) \<or> dict_get r (str ''authors'') = PList []"
    unfolding r by (simp add: dict_get_def finalize_authors)
  have "md_authors r = PList [PStr s]" if "dict_get r (str ''authors'') = PStr s" for s
    using that t by (simp add: md_authors_def py_or_def)
  then show ?thesis
    using c r finalize_authors finalize_other md_authors_not_str by blast
qed

theorem final_authors_present_witness:
  "final_record env4 url1 = Inr rec4 \<and>
   dict_get rec4 (str ''authors'') = PStr (str ''Jane'') \<and>
   md_authors rec4 = PList [PStr (str ''Jane'')]"
proof -
  from final_authors_present [OF env4_final]
  have "\<forall>s. dict_get rec4 (str ''authors'') = PStr s \<longrightarrow> md_authors rec4 = PList [PStr s]"
    by blast
  with rec4_authors have "md_authors rec4 = PList [PStr (str ''Jane'')]"
    by blast
  with env4_final rec4_authors show ?thesis by blast
qed

section \<open>Exceptions in the adapters\<close>

text \<open>The fallback adapter returns on every run (\<open>newspaper_returns\<close>). The primary
  adapter raises exactly when the download or the extraction call raises.\<close>

lemma trafilatura_raises_iff:
  "(\<exists>e. fetch_with_trafilatura env url = Inl e) \<longleftrightarrow>
     (\<exists>e. tf_fetch_url env url = Inl e) \<or>
     (\<exists>html e. tf_fetch_url env url = Inr (Some html) \<and> html \<noteq> [] \<and>
        tf_extract env html = Inl e)"
  by (auto simp: fetch_with_trafilatura_def split: sum.splits option.splits if_splits)

lemma env5_raises: "fetch_with_trafilatura env5 url1 = Inl (PyExc ''TypeError'')"
  by (simp add: env5_def env_fail_def fetch_with_trafilatura_def str_def)

text \<open>
  Claim C5 on the code: in a run where the page is downloaded and
  \<open>trafilatura.extract\<close> raises, \<open>fetch_with_trafilatura\<close> does not return \<open>None\<close>;
  the exception leaves it, leaves \<open>coalesce_article\<close>, and ends the batch before
  the second URL is looked at.
\<close>

theorem trafilatura_exception_escapes:
  "fetch_with_trafilatura env5 url1 = Inl (PyExc ''TypeError'') \<and>
   coalesce_article env5 url1 = ([CallPrimary], Inl (PyExc ''TypeError'')) \<and>
   main_loop env5 True [url1, url2] = ([], Some (PyExc ''TypeError''))"
  using env5_raises by (simp add: coalesce_article_def final_record_def)

section \<open>Publish dates\<close>

lemma zpad_numeral:
  "zpad (numeral k) n = zpad (pred_numeral k) (n div 10) @ [digit n]"
proof -
  have "zpad (Suc (pred_numeral k)) n = zpad (pred_numeral k) (n div 10) @ [digit n]"
    by (rule zpad.simps)
  then show ?thesis
    by (simp only: numeral_eq_Suc)
qed

lemmas date_defs = isoformat_def iso_offset_def usec_per_day_def civil_from_days_def str_def
  Let_def

lemmas zone_defs = offset_for_def fixed_zone_def valid_offset_def in_range_def max_wall_def
  usec_per_day_def

lemma d8_iso: "isoformat d8 = str ''2024-01-01T12:00:00''"
  unfolding d8_def date_defs by (simp add: zpad_numeral digit_def)

lemma d8_offset: "utc_offset_of env8 d8 = Inr 25200000000"
  by (simp add: utc_offset_of_def env8_def env_defs d8_def zone_defs)

lemma d8_utc:
  "astimezone_utc (local_utcoffset env8) d8 =
     Inr \<lparr>wall = 63839682000000000, tzinfo = Some 0\<rparr>"
  using d8_offset
  by (simp add: utc_offset_of_def astimezone_utc_def d8_def in_range_def max_wall_def
        usec_per_day_def)

lemma d8_utc_iso:
  "isoformat \<lparr>wall = 63839682000000000, tzinfo = Some 0\<rparr> = str ''2024-01-01T05:00:00+00:00''"
  unfolding date_defs by (simp add: zpad_numeral digit_def)

lemma env8_fallback: "fetch_with_newspaper env8 url1 = Inr (Some rec8)"
proof -
  have "publish_date_iso env8 (Some d8) = Inr (PStr (str ''2024-01-01T05:00:00+00:00''))"
    by (simp add: publish_date_iso_def d8_utc d8_utc_iso)
  then show ?thesis
    by (simp add: fetch_with_newspaper_def newspaper_body_def env8_def env_defs art8_def rec8_def
          py_or_def url1_def str_def)
qed

text \<open>
  Claim C8 as stated fails in its second half: a publish date of 2024-01-01T12:00:00
  without time zone, on a system seven hours ahead of UTC, is not passed through. The
  record's date is \<open>2024-01-01T05:00:00+00:00\<close>, the date read as local time and moved
  to UTC.
\<close>

theorem naive_date_converted:
  "tzinfo d8 = None \<and>
   article_parse env8 url1 = Inr art8 \<and> art_publish_date art8 = Some d8 \<and>
   fetch_with_newspaper env8 url1 = Inr (Some rec8) \<and>
   dict_get rec8 (str ''date'') = PStr (str ''2024-01-01T05:00:00+00:00'') \<and>
   isoformat d8 = str ''2024-01-01T12:00:00'' \<and>
   dict_get rec8 (str ''date'') \<noteq> PStr (isoformat d8)"
proof -
  have "dict_get rec8 (str ''date'') = PStr (str ''2024-01-01T05:00:00+00:00'')"
    by (simp add: rec8_def dict_get_def str_def)
  moreover have "str ''2024-01-01T05:00:00+00:00'' \<noteq> str ''2024-01-01T12:00:00''"
    by (simp add: str_def)
  moreover have "tzinfo d8 = None" "article_parse env8 url1 = Inr art8"
    "art_publish_date art8 = Some d8"
    by (simp_all add: d8_def env8_def env_defs art8_def)
  ultimately show ?thesis
    using env8_fallback d8_iso by simp
qed

text \<open>The ISO form of a UTC date is that of its reading followed by \<open>+00:00\<close>.\<close>

lemma isoformat_utc_suffix:
  "isoformat \<lparr>wall = w, tzinfo = Some 0\<rparr> =
   isoformat \<lparr>wall = w, tzinfo = None\<rparr> @ str ''+00:00''"
proof -
  have "iso_offset 0 = str ''+00:00''"
    by (simp add: iso_offset_def str_def digit_def numeral_2_eq_2)
  then show ?thesis
    by (simp add: isoformat_def Let_def split: prod.splits)
qed

text \<open>The three ways lines 120 to 123 end for a date: the offset is not found, the UTC
  reading is out of range, or the date is written in ISO form.\<close>

lemma publish_date_iso_Some:
  "utc_offset_of env d = Inr off \<Longrightarrow> in_range (wall d - off) \<Longrightarrow>
   publish_date_iso env (Some d) =
     Inr (PStr (isoformat \<lparr>wall = wall d - off, tzinfo = Some 0\<rparr>))"
  by (simp add: publish_date_iso_def astimezone_utc_def utc_offset_of_def)

lemma publish_date_iso_no_offset:
  "utc_offset_of env d = Inl e \<Longrightarrow> publish_date_iso env (Some d) = Inl e"
  by (simp add: publish_date_iso_def astimezone_utc_def utc_offset_of_def)

lemma publish_date_iso_overflow:
  "utc_offset_of env d = Inr off \<Longrightarrow> \<not> in_range (wall d - off) \<Longrightarrow>
   publish_date_iso env (Some d) = Inl (PyExc ''OverflowError'')"
  by (simp add: publish_date_iso_def astimezone_utc_def utc_offset_of_def)

lemma newspaper_date:
  assumes "newspaper_ok env" "article_parse env url = Inr art"
    and "urlparse env url = Inr (scheme, netloc)"
    and "publish_date_iso env (art_publish_date art) = Inr v"
  shows "\<exists>r. fetch_with_newspaper env url = Inr (Some r) \<and> dict_get r (str ''date'') = v"
  using assms
  by (simp add: fetch_with_newspaper_def newspaper_body_def dict_get_def str_def)

lemma newspaper_date_raises:
  assumes "article_parse env url = Inr art"
    and "publish_date_iso env (art_publish_date art) = Inl e"
  shows "fetch_with_newspaper env url = Inr None"
  using assms
  by (simp add: fetch_with_newspaper_def newspaper_body_def)

lemma d_min_offset: "utc_offset_of env_min d_min = Inl (PyExc ''ValueError'')"
  by (simp add: utc_offset_of_def env_min_def env_defs d_min_def zone_defs)

text \<open>
  Claim C8, amended. For a publish date of the fallback adapter, \<open>astimezone\<close> works
  with the date's own offset when the date carries time zone information, and with the
  offset it finds in the system's local time zone when the date carries none. When
  that offset is found and the UTC reading lies in the years 1 to 9999, the record's
  date is the UTC reading in ISO-8601 form, ending in \<open>+00:00\<close>; when the offset is
  not found or the UTC reading lies outside those years, the adapter returns no record.
\<close>

theorem newspaper_date_utc:
  assumes "newspaper_ok env" and "article_parse env url = Inr art"
    and "art_publish_date art = Some d"
  shows "(\<forall>off scheme netloc.
            utc_offset_of env d = Inr off \<and> in_range (wall d - off) \<and>
            urlparse env url = Inr (scheme, netloc) \<longrightarrow>
            (\<exists>r. fetch_with_newspaper env url = Inr (Some r) \<and>
                 dict_get r (str ''date'') =
                   PStr (isoformat \<lparr>wall = wall d - off, tzinfo = None\<rparr> @ str ''+00:00''))) \<and>
         ((\<exists>e. utc_offset_of env d = Inl e) \<or>
          (\<exists>off. utc_offset_of env d = Inr off \<and> \<not> in_range (wall d - off)) \<longrightarrow>
            fetch_with_newspaper env url = Inr None)"
proof -
  have "\<exists>r. fetch_with_newspaper env url = Inr (Some r) \<and>
      dict_get r (str ''date'') =
        PStr (isoformat \<lparr>wall = wall d - off, tzinfo = None\<rparr> @ str ''+00:00'')"
    if "utc_offset_of env d = Inr off" "in_range (wall d - off)"
      "urlparse env url = Inr (scheme, netloc)" for off scheme netloc
    using newspaper_date [OF assms(1,2) that(3)] assms(3) publish_date_iso_Some [OF that(1,2)]
    by (simp add: isoformat_utc_suffix)
  moreover have "fetch_with_newspaper env url = Inr None"
    if "utc_offset_of env d = Inl e" for e
    using newspaper_date_raises [OF assms(2)] assms(3) publish_date_iso_no_offset [OF that]
    by simp
  moreover have "fetch_with_newspaper env url = Inr None"
    if "utc_offset_of env d = Inr off" "\<not> in_range (wall d - off)" for off
    using newspaper_date_raises [OF assms(2)] assms(3) publish_date_iso_overflow [OF that]
    by simp
  ultimately show ?thesis by blast
qed

theorem newspaper_date_utc_witness:
  "newspaper_ok env8 \<and> article_parse env8 url1 = Inr art8 \<and> art_publish_date art8 = Some d8 \<and>
   utc_offset_of env8 d8 = Inr 25200000000 \<and> in_range (wall d8 - 25200000000) \<and>
   urlparse env8 url1 = Inr (str ''https'', str ''example.com'') \<and>
   (\<exists>r. fetch_with_newspaper env8 url1 = Inr (Some r) \<and>
        dict_get r (str ''date'') =
          PStr (isoformat \<lparr>wall = wall d8 - 25200000000, tzinfo = None\<rparr> @ str ''+00:00'')) \<and>
   newspaper_ok env_min \<and> article_parse env_min url1 = Inr art_min \<and>
   art_publish_date art_min = Some d_min \<and>
   utc_offset_of env_min d_min = Inl (PyExc ''ValueError'') \<and>
   fetch_with_newspaper env_min url1 = Inr None"
proof -
  have a: "newspaper_ok env8" "article_parse env8 url1 = Inr art8"
    "art_publish_date art8 = Some d8"
    by (simp_all add: env8_def env_defs art8_def)
  have u: "urlparse env8 url1 = Inr (str ''https'', str ''example.com'')"
    by (simp add: env8_def env_defs)
  have c: "in_range (wall d8 - 25200000000)"
    by (simp add: d8_def in_range_def max_wall_def usec_per_day_def)
  have m: "newspaper_ok env_min" "article_parse env_min url1 = Inr art_min"
    "art_publish_date art_min = Some d_min"
    by (simp_all add: env_min_def env_defs art_min_def)
  from newspaper_date_utc [OF a] d8_offset c u
  have "\<exists>r. fetch_with_newspaper env8 url1 = Inr (Some r) \<and>
      dict_get r (str ''date'') =
        PStr (isoformat \<lparr>wall = wall d8 - 25200000000, tzinfo = None\<rparr> @ str ''+00:00'')"
    by blast
  moreover from newspaper_date_utc [OF m] d_min_offset
  have "fetch_with_newspaper env_min url1 = Inr None"
    by blast
  ultimately show ?thesis
    using a u c m d8_offset d_min_offset by blast
qed

section \<open>The robots policy\<close>

lemma url1_neq_url2: "url1 \<noteq> url2" "url2 \<noteq> url1"
  by (simp_all add: url1_def url2_def str_def)

lemmas robots_defs = robots_allowed_def rp_read_def can_fetch_def new_parser_def

lemma env9_deny: "robots_allowed env9 url1 = Inr False"
  by (simp add: robots_defs env9_def env_fail_def)

lemma env9_allow: "robots_allowed env9 url2 = Inr True"
  by (simp add: robots_defs env9_def env_fail_def url1_neq_url2)

lemma stub_final:
  assumes "fetch_with_trafilatura env url = Inr None" "fetch_with_newspaper env url = Inr None"
  shows "final_record env url = Inr [(str ''url'', PStr url), (str ''authors'', PList [])]"
proof -
  have "coalesce_article env url =
      ([CallPrimary, CallFallback], Inr [(str ''url'', PStr url)])"
    using assms by (simp add: coalesce_article_def sufficient_def last_resort_def)
  then show ?thesis
    by (simp add: final_record_def finalize_def dict_get_def str_def)
qed

lemma env9_final: "final_record env9 url2 = Inr stub2"
  unfolding stub2_def
  by (rule stub_final)
     (simp_all add: env9_def env_fail_def fetch_with_trafilatura_def fetch_with_newspaper_def)

lemma env9_rest: "main_loop env9 False [url2] = ([Saved stub2], None)"
  using env9_allow env9_final by (simp add: env9_def env_fail_def)

text \<open>
  What the code does for the robots policy. For a URL that \<open>urlparse\<close> accepts, when
  \<open>urlopen\<close> raises (no connection, no such host), \<open>robots_allowed\<close> answers
  \<open>True\<close>. When it answers \<open>False\<close> and the check is not switched off, the loop
  records the URL as skipped, fetches and writes nothing for it, and goes on with the
  remaining URLs exactly as it would without it.
\<close>

lemma robots_open_raises_allows:
  "urlparse env url = Inr (scheme, netloc) \<Longrightarrow>
   robots_open env (robots_url scheme netloc) = Inl e \<Longrightarrow> robots_allowed env url = Inr True"
  by (simp add: robots_allowed_def rp_read_def)

lemma robots_deny_skips:
  "\<not> skip_robots \<Longrightarrow> robots_allowed env url = Inr False \<Longrightarrow>
   main_loop env skip_robots (url # rest) =
     (Skipped url # fst (main_loop env skip_robots rest), snd (main_loop env skip_robots rest))"
  by (simp split: prod.splits)

lemma env9_batch: "main_loop env9 False [url1, url2] = ([Skipped url1, Saved stub2], None)"
  using robots_deny_skips [of False env9 url1 "[url2]"] env9_deny
  by (simp only: env9_rest fst_conv snd_conv not_False_eq_True)

text \<open>A server error on the robots file leaves the parser as new, and it denies.\<close>

lemma robots_http_error:
  assumes "urlparse env url = Inr (scheme, netloc)"
    and "robots_open env (robots_url scheme netloc) = Inr (HTTPError code)"
  shows "robots_allowed env url = Inr (400 \<le> code \<and> code < 500 \<and> code \<noteq> 401 \<and> code \<noteq> 403)"
  using assms by (auto simp: robots_defs)

lemma env_503_deny: "robots_allowed env_503 u = Inr False"
  by (simp add: robots_defs env_503_def env_fail_def)

lemma env_bad_raises: "robots_allowed env_bad url_bad = Inl (PyExc ''ValueError'')"
  by (simp add: robots_allowed_def env_bad_def env_fail_def)

text \<open>
  Claim C9 on the code: when the host answers the request for its robots file with
  status 503, the policy cannot be read, yet \<open>robots_allowed\<close> answers \<open>False\<close> and
  both URLs of the batch are skipped as disallowed. For a URL that \<open>urlparse\<close>
  refuses, \<open>robots_allowed\<close> raises, and the batch ends before the next URL.
\<close>

theorem robots_unreachable_denies:
  "robots_open env_503 (robots_url (str ''https'') (str ''example.com'')) = Inr (HTTPError 503) \<and>
   robots_allowed env_503 url1 = Inr False \<and>
   main_loop env_503 False [url1, url2] = ([Skipped url1, Skipped url2], None) \<and>
   robots_allowed env_bad url_bad = Inl (PyExc ''ValueError'') \<and>
   main_loop env_bad False [url_bad, url2] = ([], Some (PyExc ''ValueError''))"
  using env_503_deny env_bad_raises by (simp add: env_503_def env_fail_def)

section \<open>File names: results\<close>

lemmas slug_defs = slugify_def slug_body_def strip_def rstrip_chars_def lower_def slug_keep_def
  isspace_def Let_def str_def

lemma set_collapse_ws: "set (collapse_ws s) \<subseteq> insert 45 {c \<in> set s. \<not> isspace c}"
proof (induction s rule: collapse_ws.induct)
  case 1
  show ?case by simp
next
  case (2 c cs)
  show ?case
  proof (cases "isspace c")
    case True
    have "set (dropWhile isspace cs) \<subseteq> set cs"
      by (auto dest: set_dropWhileD)
    with 2(1) [OF True] True show ?thesis by auto
  next
    case False
    with 2(2) [OF False] show ?thesis by auto
  qed
qed

lemma set_rstrip_chars: "set (rstrip_chars P s) \<subseteq> set s"
  by (auto simp: rstrip_chars_def dest: set_dropWhileD)

lemma length_rstrip_chars: "length (rstrip_chars P s) \<le> length s"
  using length_dropWhile_le [of P "rev s"] by (simp add: rstrip_chars_def)

lemma slug_keep_char: "slug_keep c \<Longrightarrow> \<not> isspace c \<Longrightarrow> slug_char c"
  by (auto simp: slug_keep_def slug_char_def)

lemma slug_char_hyphen: "slug_char 45"
  by (simp add: slug_char_def)

lemma slug_body_chars:
  assumes c: "c \<in> set (slug_body tbl t n)"
  shows "slug_char c"
proof -
  define t2 where "t2 = filter slug_keep (lower tbl (strip t))"
  have "c \<in> set (collapse_ws t2)"
    using c set_rstrip_chars [of "\<lambda>c. c = 45 \<or> c = 95" "take n (collapse_ws t2)"]
    by (auto simp: slug_body_def Let_def t2_def split: if_splits dest: in_set_takeD)
  with set_collapse_ws [of t2] have "c = 45 \<or> (c \<in> set t2 \<and> \<not> isspace c)"
    by auto
  then show "slug_char c"
    by (auto simp: t2_def slug_char_hyphen slug_keep_char)
qed

lemma slug_body_length: "length (slug_body tbl t n) \<le> n"
  using length_rstrip_chars [of "\<lambda>c. c = 45 \<or> c = 95"
      "take n (collapse_ws (filter slug_keep (lower tbl (strip t))))"]
  by (auto simp: slug_body_def Let_def)

lemma untitled_chars: "c \<in> set (str ''untitled'') \<Longrightarrow> slug_char c"
  by (auto simp: str_def slug_char_def)

lemma untitled_length: "length (str ''untitled'') = 8"
  by (simp add: str_def)

lemma untitled_nonempty: "str ''untitled'' \<noteq> []"
  by (simp add: str_def)

lemma slugify_nonempty: "slugify tbl t n \<noteq> []"
  by (simp add: slugify_def Let_def untitled_nonempty)

lemma slugify_length: "8 \<le> n \<Longrightarrow> length (slugify tbl t n) \<le> n"
  using slug_body_length [of tbl t n] by (simp add: slugify_def Let_def untitled_length)

lemma slugify_chars: "c \<in> set (slugify tbl t n) \<Longrightarrow> slug_char c"
  by (cases "slug_body tbl t n = []")
     (simp_all add: slugify_def Let_def slug_body_chars untitled_chars)

lemma slugify_example:
  "slugify (\<lambda>s i. []) (str ''  Hello,  World! _'') 80 = str ''hello-world-_''"
  "slugify (\<lambda>s i. []) (str ''  Hello,  World! _'') 12 = str ''hello-world''"
  by (simp_all add: slug_defs)

lemma slug_body_example: "slug_body (\<lambda>s i. []) (str '' !!! '') 80 = []"
  by (simp add: slug_defs)

text \<open>
  Claim C10. With \<open>max_len = 80\<close>, for every input string and every lower-case table,
  \<open>slugify\<close> returns a string that is not empty, has at most 80 code points, and
  consists of small letters, digits, hyphen, underscore and dot only; when nothing is
  left of the input after lines 52 to 56, the result is \<open>untitled\<close>.
\<close>

theorem slugify_default_shape:
  "slugify tbl t 80 \<noteq> [] \<and> length (slugify tbl t 80) \<le> 80 \<and>
   list_all slug_char (slugify tbl t 80) \<and>
   (slug_body tbl t 80 = [] \<longrightarrow> slugify tbl t 80 = str ''untitled'')"
proof -
  have "length (slugify tbl t 80) \<le> 80"
    by (rule slugify_length) simp
  moreover have "list_all slug_char (slugify tbl t 80)"
    unfolding list_all_iff using slugify_chars by blast
  moreover have "slug_body tbl t 80 = [] \<longrightarrow> slugify tbl t 80 = str ''untitled''"
    by (simp add: slugify_def)
  ultimately show ?thesis
    using slugify_nonempty by blast
qed

theorem slugify_default_shape_witness:
  "slug_body (\<lambda>s i. []) (str '' !!! '') 80 = [] \<and>
   slugify (\<lambda>s i. []) (str '' !!! '') 80 = str ''untitled'' \<and>
   list_all slug_char (str ''untitled'')"
proof -
  from slugify_default_shape [of "\<lambda>s i. []" "str '' !!! ''"]
  have a: "list_all slug_char (slugify (\<lambda>s i. []) (str '' !!! '') 80)"
    and b: "slug_body (\<lambda>s i. []) (str '' !!! '') 80 = [] \<longrightarrow>
            slugify (\<lambda>s i. []) (str '' !!! '') 80 = str ''untitled''"
    by blast+
  from b slug_body_example
  have c: "slugify (\<lambda>s i. []) (str '' !!! '') 80 = str ''untitled''"
    by blast
  from a have "list_all slug_char (str ''untitled'')"
    by (simp only: c)
  with c slug_body_example show ?thesis by blast
qed

end
